theory Spec2Isabelle
  imports Main "HOL-Library.Char_ord" "HOL-Library.List_Lexorder"
begin

section \<open>The repository model of pubtools.pulplib\<close>

text \<open>
  A shallow embedding of \<^verbatim>\<open>pubtools/pulplib/_impl/model/repository/base.py\<close>.
  Python strings are \<open>string\<close> (characters in the Latin-1 range), \<^verbatim>\<open>None\<close> is
  \<open>None\<close> of an option type, an exception is a value of \<open>exn\<close>, and a function that
  may raise returns \<open>exn + 'a\<close> with \<open>Inl\<close> for the exception raised.
\<close>

subsection \<open>Exceptions\<close>

datatype exn =
    DetachedException
  | ValueError string
  | KeyError string
  | TypeError
  | AttributeError
  | RemoteError string

subsection \<open>Distributor and Repository\<close>

text \<open>
  \<^verbatim>\<open>Distributor\<close> is declared in a sibling module; the repository code reads its
  \<^verbatim>\<open>id\<close>, \<^verbatim>\<open>repo_id\<close> and \<^verbatim>\<open>is_rsync\<close> attributes, and
  \<^verbatim>\<open>type_id\<close> (here \<open>dist_type_id\<close>) tells two distributors of one id apart.
\<close>

record Distributor =
  dist_id :: string
  dist_type_id :: string
  repo_id :: "string option"
  is_rsync :: bool

type_synonym datetime = int

record Repository =
  repository_id :: string
  type :: "string option"
  created :: "datetime option"
  distributors :: "Distributor list"
  eng_product_id :: "int option"
  relative_url :: "string option"
  mutable_urls :: "string list"
  is_sigstore :: bool
  is_temporary :: bool
  signing_keys :: "string list"
  skip_rsync_repodata :: bool
  content_set :: "string option"
  arch :: "string option"
  platform_full_version :: "string option"
  product_versions :: "string list option"
  include_in_download_service :: bool
  include_in_download_service_preview :: bool

text \<open>Python truthiness of an optional string: \<^verbatim>\<open>None\<close> and \<^verbatim>\<open>""\<close> are false.\<close>

fun truthy_str :: "string option \<Rightarrow> bool" where
  "truthy_str None = False"
| "truthy_str (Some s) = (s \<noteq> [])"

text \<open>
  \<^verbatim>\<open>_check_repo_id\<close>, the validator of the \<^verbatim>\<open>distributors\<close> attribute:
  \<^verbatim>\<open>
  for distributor in value:
      if not distributor.repo_id:
          return
      if distributor.repo_id == self.id:
          return
      raise ValueError(...)
  \<close>
  Every path through the loop body leaves the function, so the body runs for the
  first distributor only and the model has no recursive call. The \<^verbatim>\<open>ValueError\<close>
  carries the id of the offending distributor.
\<close>

fun check_repo_id :: "string \<Rightarrow> Distributor list \<Rightarrow> exn + unit" where
  "check_repo_id self_id [] = Inr ()"
| "check_repo_id self_id (distributor # rest) =
     (if \<not> truthy_str (repo_id distributor) then Inr ()
      else if repo_id distributor = Some self_id then Inr ()
      else Inl (ValueError (dist_id distributor)))"

text \<open>
  Construction of a \<^verbatim>\<open>Repository\<close>: attrs stores the (converted) field values and
  then runs the validators. The argument holds the field values after conversion;
  the validator of \<^verbatim>\<open>is_temporary\<close> (\<^verbatim>\<open>instance_of(bool)\<close>) holds by typing.
\<close>

definition Repository_init :: "Repository \<Rightarrow> exn + Repository" where
  "Repository_init r =
     (case check_repo_id (repository_id r) (distributors r) of
        Inl e \<Rightarrow> Inl e
      | Inr _ \<Rightarrow> Inr r)"

subsection \<open>Sorting product versions: pv_converter\<close>

text \<open>
  The versions are strings. \<^verbatim>\<open>str(v)\<close> of a string is the string itself, so the first
  line of \<^verbatim>\<open>pv_converter\<close> leaves such a list as it is; elements of other types are
  not part of this model.
\<close>

text \<open>
  \<^verbatim>\<open>str.split(sep)\<close> for a one-character separator. The result is never empty, so
  the last case below is never taken.
\<close>

fun split_on :: "char \<Rightarrow> string \<Rightarrow> string list" where
  "split_on sep [] = [[]]"
| "split_on sep (c # cs) =
     (if c = sep then [] # split_on sep cs
      else (case split_on sep cs of
              w # ws \<Rightarrow> (c # w) # ws
            | [] \<Rightarrow> [[c]]))"










text \<open>The attribute defaults of \<^verbatim>\<open>Repository\<close>: only \<^verbatim>\<open>id\<close> is required.\<close>

definition Repository_defaults :: "string \<Rightarrow> Repository" where
  "Repository_defaults rid =
     \<lparr>repository_id = rid, type = None, created = None, distributors = [], eng_product_id = None,
      relative_url = None, mutable_urls = [], is_sigstore = False, is_temporary = False,
      signing_keys = [], skip_rsync_repodata = False, content_set = None, arch = None,
      platform_full_version = None, product_versions = None,
      include_in_download_service = False,
      include_in_download_service_preview = False\<rparr>"

subsection \<open>Dictionaries\<close>

text \<open>
  A Python \<^verbatim>\<open>dict\<close> whose order is observable is an association list with one entry
  per key: \<^verbatim>\<open>d[k] = v\<close> replaces the value of an existing key in place and appends a
  new key at the end.
\<close>

fun dict_set :: "('k \<times> 'v) list \<Rightarrow> 'k \<Rightarrow> 'v \<Rightarrow> ('k \<times> 'v) list" where
  "dict_set [] k v = [(k, v)]"
| "dict_set ((k', v') # kvs) k v =
     (if k' = k then (k, v) # kvs else (k', v') # dict_set kvs k v)"

subsection \<open>Publish options and distributor configuration\<close>

record PublishOptions =
  force :: "bool option"
  clean :: "bool option"
  origin_only :: "bool option"
  rsync_extra_args :: "string list option"

definition PublishOptions_defaults :: PublishOptions where
  "PublishOptions_defaults =
     \<lparr>force = None, clean = None, origin_only = None, rsync_extra_args = None\<rparr>"

datatype config_value = CBool bool | CArgs "string list"

type_synonym config = "(string \<times> config_value) list"

text \<open>Python truthiness of an optional boolean: \<^verbatim>\<open>None\<close> and \<^verbatim>\<open>False\<close> are false.\<close>

fun truthy_bool :: "bool option \<Rightarrow> bool" where
  "truthy_bool None = False"
| "truthy_bool (Some b) = b"

definition PUBLISH_DISTRIBUTORS :: "string list" where
  "PUBLISH_DISTRIBUTORS =
     [''iso_distributor'',
      ''yum_distributor'',
      ''cdn_distributor'',
      ''cdn_distributor_unprotected'',
      ''docker_web_distributor_name_cli'']"

text \<open>
  \<^verbatim>\<open>_distributors_by_id\<close>: the loop \<^verbatim>\<open>out[dist.id] = dist\<close> over the distributors, in
  order, so that of two distributors with one id the later one stays.
\<close>

definition distributors_by_id :: "Repository \<Rightarrow> (string \<rightharpoonup> Distributor)" where
  "distributors_by_id self =
     fold (\<lambda>dist out. out(dist_id dist \<mapsto> dist)) (distributors self) Map.empty"

definition config_for_distributor :: "Distributor \<Rightarrow> PublishOptions \<Rightarrow> config" where
  "config_for_distributor distributor options =
     (let out = [];
          out = (if is_rsync distributor then
                   (let out = (case clean options of
                                 Some v \<Rightarrow> dict_set out ''delete'' (CBool v) | None \<Rightarrow> out);
                        out = (case origin_only options of
                                 Some v \<Rightarrow> dict_set out ''content_units_only'' (CBool v)
                               | None \<Rightarrow> out);
                        out = (case rsync_extra_args options of
                                 Some v \<Rightarrow> dict_set out ''rsync_extra_args'' (CArgs v)
                               | None \<Rightarrow> out)
                    in out)
                 else out);
          out = (case force options of
                   Some v \<Rightarrow> dict_set out ''force_full'' (CBool v) | None \<Rightarrow> out)
      in out)"

text \<open>
  The loop of \<^verbatim>\<open>publish\<close> over the candidate distributor ids, with \<^verbatim>\<open>to_publish\<close> as
  the accumulator. A \<^verbatim>\<open>Distributor\<close> object is always true, so \<^verbatim>\<open>if not distributor\<close>
  holds exactly when the id is not in the dictionary.
\<close>

fun publish_loop ::
  "Repository \<Rightarrow> PublishOptions \<Rightarrow> string list \<Rightarrow> (Distributor \<times> config) list
   \<Rightarrow> (Distributor \<times> config) list" where
  "publish_loop self options [] to_publish = to_publish"
| "publish_loop self options (candidate # rest) to_publish =
     (case distributors_by_id self candidate of
        None \<Rightarrow> publish_loop self options rest to_publish
      | Some distributor \<Rightarrow>
          if dist_id distributor = ''docker_web_distributor_name_cli''
             \<and> truthy_bool (origin_only options)
          then publish_loop self options rest to_publish
          else publish_loop self options rest
                 (to_publish @ [(distributor, config_for_distributor distributor options)]))"

subsection \<open>Sync options\<close>

record SyncOptions =
  feed :: "string option"
  ssl_validation :: "bool option"
  ssl_ca_cert :: "string option"
  ssl_client_cert :: "string option"
  ssl_client_key :: "string option"
  max_speed :: "int option"
  proxy_host :: "string option"
  proxy_port :: "int option"
  proxy_username :: "string option"
  proxy_password :: "string option"
  basic_auth_username :: "string option"
  basic_auth_password :: "string option"

text \<open>\<^verbatim>\<open>SyncOptions(feed=...)\<close>: every other attribute defaults to \<^verbatim>\<open>None\<close>.\<close>

definition SyncOptions_feed :: "string \<Rightarrow> SyncOptions" where
  "SyncOptions_feed f =
     \<lparr>feed = Some f, ssl_validation = None, ssl_ca_cert = None, ssl_client_cert = None,
      ssl_client_key = None, max_speed = None, proxy_host = None, proxy_port = None,
      proxy_username = None, proxy_password = None, basic_auth_username = None,
      basic_auth_password = None\<rparr>"

datatype sync_value = SStr string | SBool bool | SInt int

text \<open>
  \<^verbatim>\<open>asdict(options, filter=lambda name, val: val is not None)\<close>: the attributes in
  declaration order, without those whose value is \<^verbatim>\<open>None\<close>.
\<close>

definition asdict_not_none :: "SyncOptions \<Rightarrow> (string \<times> sync_value) list" where
  "asdict_not_none options =
     List.map_filter (\<lambda>(name, val). map_option (Pair name) val)
       [(''feed'', map_option SStr (feed options)),
        (''ssl_validation'', map_option SBool (ssl_validation options)),
        (''ssl_ca_cert'', map_option SStr (ssl_ca_cert options)),
        (''ssl_client_cert'', map_option SStr (ssl_client_cert options)),
        (''ssl_client_key'', map_option SStr (ssl_client_key options)),
        (''max_speed'', map_option SInt (max_speed options)),
        (''proxy_host'', map_option SStr (proxy_host options)),
        (''proxy_port'', map_option SInt (proxy_port options)),
        (''proxy_username'', map_option SStr (proxy_username options)),
        (''proxy_password'', map_option SStr (proxy_password options)),
        (''basic_auth_username'', map_option SStr (basic_auth_username options)),
        (''basic_auth_password'', map_option SStr (basic_auth_password options))]"

subsection \<open>Criteria\<close>

text \<open>
  Modelled from the spec: the \<^verbatim>\<open>Criteria\<close> and \<^verbatim>\<open>Matcher\<close> classes are not among the
  source files. The spec gives the predicate tree three kinds of node: field-equals,
  field-in and and-of. \<^verbatim>\<open>Criteria.with_field(f, Matcher.in_(vs))\<close> is \<open>Field_in f vs\<close>.
  A criteria object is always true in a condition.
\<close>

datatype criteria =
    Field_equals string string
  | Field_in string "string list"
  | And_of "criteria list"

subsection \<open>The client, futures and the trace of calls\<close>

type_synonym task = string
type_synonym page = "string list"
type_synonym file_obj = string
type_synonym descriptor = "nat \<times> string"
type_synonym unit_key = "(string \<times> string) list"
type_synonym unit_metadata = "(string \<times> string) list"

text \<open>
  A future is modelled by its outcome: the exception it fails with or the value it
  resolves to.
\<close>

type_synonym 'a future = "exn + 'a"

text \<open>
  Everything the repository code asks of its collaborators is recorded, in order, in
  a trace: the calls to the client (the transport), the hooks of the plugin manager,
  the callables handed in by the caller, log lines and warnings.
\<close>

datatype event =
    Call_search_repo_units string "criteria option"
  | Call_publish_repository Repository "(Distributor \<times> config) list"
  | Call_do_sync string "(string \<times> sync_value) list"
  | Call_do_unassociate string "criteria option"
  | Call_request_upload string
  | Call_do_upload_file string file_obj string
  | Call_do_import string string string unit_key "unit_metadata option"
  | Call_delete_upload_request string string
  | Hook_pre_publish Repository PublishOptions
  | Hook_published Repository PublishOptions
  | Call_unit_key_fn "descriptor option"
  | Call_unit_metadata_fn "descriptor option"
  | Log_info_uploading string string string
  | Warn_deprecation string

text \<open>
  The client answers each call with a future. The methods carry the names of the
  source without the leading underscore.
\<close>

record client =
  search_repo_units :: "string \<Rightarrow> criteria option \<Rightarrow> page future"
  publish_repository :: "Repository \<Rightarrow> (Distributor \<times> config) list \<Rightarrow> task list future"
  do_sync :: "string \<Rightarrow> (string \<times> sync_value) list \<Rightarrow> task list future"
  do_unassociate :: "string \<Rightarrow> criteria option \<Rightarrow> task list future"
  request_upload :: "string \<Rightarrow> (string \<rightharpoonup> string) future"
  do_upload_file :: "string \<Rightarrow> file_obj \<Rightarrow> string \<Rightarrow> descriptor option future"
  do_import :: "string \<Rightarrow> string \<Rightarrow> string \<Rightarrow> unit_key \<Rightarrow> unit_metadata option
                \<Rightarrow> task list future"
  delete_upload_request :: "string \<Rightarrow> string \<Rightarrow> unit future"

text \<open>
  The plugin manager \<^verbatim>\<open>pm\<close>: calling the hook \<^verbatim>\<open>pulp_repository_pre_publish\<close> gives the
  list of the return values of the registered implementations.
\<close>

record plugin_manager =
  pulp_repository_pre_publish :: "Repository \<Rightarrow> PublishOptions \<Rightarrow> PublishOptions option list"

text \<open>
  \<^verbatim>\<open>f_map(future, fn)\<close> of more_executors: when the future resolves, \<^verbatim>\<open>fn\<close> runs on its
  value, and the new future resolves to what \<^verbatim>\<open>fn\<close> returns or fails with what \<^verbatim>\<open>fn\<close>
  raises; when the future fails, \<^verbatim>\<open>fn\<close> does not run and the new future fails the
  same way. \<^verbatim>\<open>f_flat_map\<close> is the same for an \<^verbatim>\<open>fn\<close> that returns a future, whose outcome
  becomes the outcome of the new future. A callback is a function of the trace that
  returns its result (or the exception it raised) and the extended trace.
\<close>

definition f_map ::
  "'a future \<Rightarrow> ('a \<Rightarrow> event list \<Rightarrow> (exn + 'b) \<times> event list) \<Rightarrow> event list
   \<Rightarrow> 'b future \<times> event list" where
  "f_map fut fn tr = (case fut of Inl e \<Rightarrow> (Inl e, tr) | Inr v \<Rightarrow> fn v tr)"

definition f_flat_map ::
  "'a future \<Rightarrow> ('a \<Rightarrow> event list \<Rightarrow> (exn + 'b future) \<times> event list) \<Rightarrow> event list
   \<Rightarrow> 'b future \<times> event list" where
  "f_flat_map fut fn tr =
     (case fut of
        Inl e \<Rightarrow> (Inl e, tr)
      | Inr v \<Rightarrow>
          (case fn v tr of
             (Inl e, tr') \<Rightarrow> (Inl e, tr')
           | (Inr fut', tr') \<Rightarrow> (fut', tr')))"

subsection \<open>Operations of a repository\<close>

text \<open>
  Each operation takes \<^verbatim>\<open>self._client\<close> (\<open>None\<close> for a detached object), the
  repository and the trace so far, and returns the exception it raises or the future
  it returns, together with the extended trace.
\<close>

definition search_content ::
  "client option \<Rightarrow> Repository \<Rightarrow> criteria option \<Rightarrow> event list
   \<Rightarrow> (exn + page future) \<times> event list" where
  "search_content client self criteria tr =
     (case client of
        None \<Rightarrow> (Inl DetachedException, tr)
      | Some cl \<Rightarrow>
          (Inr (search_repo_units cl (repository_id self) criteria),
           tr @ [Call_search_repo_units (repository_id self) criteria]))"

text \<open>
  \<^verbatim>\<open>publish\<close>: the detached check, the pre-publish hook, the choice of the options
  (\<^verbatim>\<open>hook_rets[0] if hook_rets else options\<close>, after the \<^verbatim>\<open>None\<close> values are filtered
  out), the loop over the candidate ids, the call of the client, and the published
  hook mapped over the client's future.
\<close>

definition publish ::
  "client option \<Rightarrow> plugin_manager \<Rightarrow> Repository \<Rightarrow> PublishOptions \<Rightarrow> event list
   \<Rightarrow> (exn + task list future) \<times> event list" where
  "publish client pm self options tr =
     (case client of
        None \<Rightarrow> (Inl DetachedException, tr)
      | Some cl \<Rightarrow>
          (let hook_rets = pulp_repository_pre_publish pm self options;
               tr = tr @ [Hook_pre_publish self options];
               hook_rets = List.map_filter (\<lambda>ret. ret) hook_rets;
               options = (case hook_rets of [] \<Rightarrow> options | ret # _ \<Rightarrow> ret);
               candidate_distributor_ids = PUBLISH_DISTRIBUTORS;
               to_publish = publish_loop self options candidate_distributor_ids [];
               out = publish_repository cl self to_publish;
               tr = tr @ [Call_publish_repository self to_publish];
               (out, tr) = f_map out
                  (\<lambda>tasks tr. (Inr tasks, tr @ [Hook_published self options])) tr
           in (Inr out, tr)))"

text \<open>
  \<^verbatim>\<open>sync\<close>: \<^verbatim>\<open>options or SyncOptions(feed="")\<close> comes before the detached check; an
  options object is always true.
\<close>

definition sync ::
  "client option \<Rightarrow> Repository \<Rightarrow> SyncOptions option \<Rightarrow> event list
   \<Rightarrow> (exn + task list future) \<times> event list" where
  "sync client self options tr =
     (let options = (case options of Some opts \<Rightarrow> opts | None \<Rightarrow> SyncOptions_feed []) in
      case client of
        None \<Rightarrow> (Inl DetachedException, tr)
      | Some cl \<Rightarrow>
          (Inr (do_sync cl (repository_id self) (asdict_not_none options)),
           tr @ [Call_do_sync (repository_id self) (asdict_not_none options)]))"

text \<open>
  \<^verbatim>\<open>remove_content(criteria, **kwargs)\<close>; \<open>type_ids\<close> is \<^verbatim>\<open>kwargs.get("type_ids")\<close>.
\<close>

definition remove_content ::
  "client option \<Rightarrow> Repository \<Rightarrow> criteria option \<Rightarrow> string list option \<Rightarrow> event list
   \<Rightarrow> (exn + task list future) \<times> event list" where
  "remove_content client self criteria type_ids tr =
     (case client of
        None \<Rightarrow> (Inl DetachedException, tr)
      | Some cl \<Rightarrow>
          (let (criteria, tr) =
                 (case criteria of
                    None \<Rightarrow>
                      (case type_ids of
                         Some ids \<Rightarrow>
                           (Some (Field_in ''content_type_id'' ids),
                            tr @ [Warn_deprecation ''type_ids is deprecated, use criteria instead''])
                       | None \<Rightarrow> (criteria, tr))
                  | Some _ \<Rightarrow> (criteria, tr))
           in (Inr (do_unassociate cl (repository_id self) criteria),
               tr @ [Call_do_unassociate (repository_id self) criteria])))"

text \<open>
  \<^verbatim>\<open>_upload_then_import\<close>. The callbacks run in the order in which their futures
  resolve: the upload id, the log line, the upload of the bytes (or nothing), the
  import, the deletion of the upload request. The arguments of \<^verbatim>\<open>_do_import\<close> are
  evaluated from left to right, so \<^verbatim>\<open>upload_id_f.result()\<close> comes before
  \<^verbatim>\<open>unit_key_fn(upload)\<close> and that before \<^verbatim>\<open>unit_metadata_fn(upload)\<close>; each of them
  may raise. The future of the deletion is dropped; the function returns the future
  of the import.
\<close>

definition upload_then_import ::
  "client option \<Rightarrow> Repository \<Rightarrow> file_obj option \<Rightarrow> string \<Rightarrow> string
   \<Rightarrow> (descriptor option \<Rightarrow> exn + unit_key) option
   \<Rightarrow> (descriptor option \<Rightarrow> exn + unit_metadata option) option
   \<Rightarrow> event list \<Rightarrow> (exn + task list future) \<times> event list" where
  "upload_then_import client self file_obj name type_id unit_key_fn unit_metadata_fn tr =
     (case client of
        None \<Rightarrow> (Inl DetachedException, tr)
      | Some cl \<Rightarrow>
          (let unit_key_fn = (case unit_key_fn of Some f \<Rightarrow> f | None \<Rightarrow> (\<lambda>_. Inr []));
               unit_metadata_fn =
                 (case unit_metadata_fn of Some f \<Rightarrow> f | None \<Rightarrow> (\<lambda>_. Inr None));
               upload_f = request_upload cl name;
               tr = tr @ [Call_request_upload name];
               (upload_id_f, tr) = f_map upload_f
                  (\<lambda>upload tr.
                     (case upload ''upload_id'' of
                        None \<Rightarrow> Inl (KeyError ''upload_id'')
                      | Some upload_id \<Rightarrow> Inr upload_id, tr)) tr;
               (logged_f, tr) = f_map upload_id_f
                  (\<lambda>upload_id tr.
                     (Inr (), tr @ [Log_info_uploading name (repository_id self) upload_id])) tr;
               (upload_complete_f, tr) =
                 (case file_obj of
                    None \<Rightarrow> f_map upload_id_f (\<lambda>_ tr. (Inr None, tr)) tr
                  | Some file \<Rightarrow>
                      f_flat_map upload_id_f
                        (\<lambda>upload_id tr.
                           (Inr (do_upload_file cl upload_id file name),
                            tr @ [Call_do_upload_file upload_id file name])) tr);
               (import_complete_f, tr) = f_flat_map upload_complete_f
                  (\<lambda>upload tr.
                     (case upload_id_f of
                        Inl e \<Rightarrow> (Inl e, tr)
                      | Inr upload_id \<Rightarrow>
                          (case unit_key_fn upload of
                             Inl e \<Rightarrow> (Inl e, tr @ [Call_unit_key_fn upload])
                           | Inr unit_key \<Rightarrow>
                               (case unit_metadata_fn upload of
                                  Inl e \<Rightarrow>
                                    (Inl e,
                                     tr @ [Call_unit_key_fn upload, Call_unit_metadata_fn upload])
                                | Inr unit_metadata \<Rightarrow>
                                    (Inr (do_import cl (repository_id self) upload_id type_id
                                            unit_key unit_metadata),
                                     tr @ [Call_unit_key_fn upload, Call_unit_metadata_fn upload,
                                           Call_do_import (repository_id self) upload_id type_id
                                             unit_key unit_metadata]))))) tr;
               (deleted_f, tr) = f_map import_complete_f
                  (\<lambda>_ tr.
                     (case upload_id_f of
                        Inl e \<Rightarrow> (Inl e, tr)
                      | Inr upload_id \<Rightarrow>
                          (Inr (delete_upload_request cl upload_id name),
                           tr @ [Call_delete_upload_request upload_id name]))) tr
           in (Inr import_complete_f, tr)))"

subsection \<open>Mutable notes\<close>

text \<open>
  An attribute as \<^verbatim>\<open>attr.fields\<close> lists it: its name and, from its metadata, the Pulp
  field it is stored under (\<^verbatim>\<open>PULP2_FIELD\<close>, when given) and whether it is mutable
  (\<^verbatim>\<open>PULP2_MUTABLE\<close>).
\<close>

record field =
  fld_name :: string
  pulp_field :: "string option"
  mutable :: bool

text \<open>The attributes that the class body of \<^verbatim>\<open>Repository\<close> declares, in order.\<close>

definition Repository_fields :: "field list" where
  "Repository_fields =
     [\<lparr>fld_name = ''id'', pulp_field = Some ''id'', mutable = False\<rparr>,
      \<lparr>fld_name = ''type'', pulp_field = Some ''notes._repo-type'', mutable = False\<rparr>,
      \<lparr>fld_name = ''created'', pulp_field = Some ''notes.created'', mutable = False\<rparr>,
      \<lparr>fld_name = ''distributors'', pulp_field = Some ''distributors'', mutable = False\<rparr>,
      \<lparr>fld_name = ''eng_product_id'', pulp_field = Some ''notes.eng_product'', mutable = False\<rparr>,
      \<lparr>fld_name = ''relative_url'', pulp_field = None, mutable = False\<rparr>,
      \<lparr>fld_name = ''mutable_urls'', pulp_field = None, mutable = False\<rparr>,
      \<lparr>fld_name = ''is_sigstore'', pulp_field = None, mutable = False\<rparr>,
      \<lparr>fld_name = ''is_temporary'', pulp_field = Some ''notes.pub_temp_repo'', mutable = False\<rparr>,
      \<lparr>fld_name = ''signing_keys'', pulp_field = Some ''notes.signatures'', mutable = False\<rparr>,
      \<lparr>fld_name = ''skip_rsync_repodata'', pulp_field = None, mutable = False\<rparr>,
      \<lparr>fld_name = ''content_set'', pulp_field = Some ''notes.content_set'', mutable = False\<rparr>,
      \<lparr>fld_name = ''arch'', pulp_field = Some ''notes.arch'', mutable = False\<rparr>,
      \<lparr>fld_name = ''platform_full_version'',
       pulp_field = Some ''notes.platform_full_version'', mutable = False\<rparr>,
      \<lparr>fld_name = ''product_versions'',
       pulp_field = Some ''notes.product_versions'', mutable = True\<rparr>,
      \<lparr>fld_name = ''include_in_download_service'',
       pulp_field = Some ''notes.include_in_download_service'', mutable = True\<rparr>,
      \<lparr>fld_name = ''include_in_download_service_preview'',
       pulp_field = Some ''notes.include_in_download_service_preview'', mutable = True\<rparr>]"

text \<open>\<^verbatim>\<open>str.startswith\<close>.\<close>

fun startswith :: "string \<Rightarrow> string \<Rightarrow> bool" where
  "startswith s [] = True"
| "startswith [] (p # ps) = False"
| "startswith (c # cs) (p # ps) = (c = p \<and> startswith cs ps)"

text \<open>
  \<^verbatim>\<open>_mutable_note_fields\<close>: the fields whose Pulp field (\<^verbatim>\<open>""\<close> when there is none)
  starts with \<^verbatim>\<open>notes.\<close> and that are mutable.
\<close>

definition mutable_note_fields :: "field list \<Rightarrow> field list" where
  "mutable_note_fields flds =
     [fld \<leftarrow> flds.
        startswith (case pulp_field fld of Some p \<Rightarrow> p | None \<Rightarrow> []) ''notes.''
        \<and> mutable fld]"

text \<open>Raw Pulp data: what JSON holds.\<close>

datatype raw =
    RNull
  | RBool bool
  | RInt int
  | RStr string
  | RList "raw list"
  | RDict "(string \<times> raw) list"

text \<open>
  Modelled from the spec: \<^verbatim>\<open>lookup\<close> and \<^verbatim>\<open>dict_put\<close> of the \<^verbatim>\<open>util\<close> module are not
  among the source files. \<^verbatim>\<open>lookup\<close> is the nested lookup across the dotted segments
  of a path, where a missing path yields the sentinel \<^verbatim>\<open>ABSENT\<close> (here \<open>None\<close>),
  distinct from \<^verbatim>\<open>None\<close>/null (here \<open>Some RNull\<close>). \<^verbatim>\<open>dict_put\<close> assigns a value into
  the nested mapping built from the path, creating the inner mappings that are
  missing; going through a value that is not a mapping raises.
\<close>

fun lookup_path :: "raw \<Rightarrow> string list \<Rightarrow> raw option" where
  "lookup_path v [] = Some v"
| "lookup_path (RDict kvs) (k # ks) =
     (case map_of kvs k of None \<Rightarrow> None | Some v \<Rightarrow> lookup_path v ks)"
| "lookup_path v (k # ks) = None"

definition lookup :: "raw \<Rightarrow> string \<Rightarrow> raw option" where
  "lookup v key = lookup_path v (split_on CHR ''.'' key)"

fun dict_put_path :: "raw \<Rightarrow> string list \<Rightarrow> raw \<Rightarrow> exn + raw" where
  "dict_put_path out [] v = Inr out"
| "dict_put_path (RDict kvs) [k] v = Inr (RDict (dict_set kvs k v))"
| "dict_put_path out [k] v = Inl TypeError"
| "dict_put_path (RDict kvs) (k # k' # ks) v =
     (case dict_put_path (case map_of kvs k of None \<Rightarrow> RDict [] | Some sub \<Rightarrow> sub) (k' # ks) v of
        Inl e \<Rightarrow> Inl e
      | Inr sub \<Rightarrow> Inr (RDict (dict_set kvs k sub)))"
| "dict_put_path out (k # k' # ks) v = Inl AttributeError"

definition dict_put :: "raw \<Rightarrow> string \<Rightarrow> raw \<Rightarrow> exn + raw" where
  "dict_put out key v = dict_put_path out (split_on CHR ''.'' key) v"

text \<open>
  The loop of \<^verbatim>\<open>_mutable_notes\<close> over the mutable note fields, with \<^verbatim>\<open>out\<close> as the
  accumulator; \<^verbatim>\<open>self_raw\<close> is the result of \<^verbatim>\<open>self._to_data()\<close>, the repository in raw
  Pulp form. A mutable note field has a Pulp field.
\<close>

fun mutable_notes_loop :: "raw \<Rightarrow> field list \<Rightarrow> raw \<Rightarrow> exn + raw" where
  "mutable_notes_loop self_raw [] out = Inr out"
| "mutable_notes_loop self_raw (fld # rest) out =
     (case pulp_field fld of
        None \<Rightarrow> mutable_notes_loop self_raw rest out
      | Some p \<Rightarrow>
          (case lookup self_raw p of
             None \<Rightarrow> mutable_notes_loop self_raw rest out
           | Some pulp_value \<Rightarrow>
               (case dict_put out p pulp_value of
                  Inl e \<Rightarrow> Inl e
                | Inr out' \<Rightarrow> mutable_notes_loop self_raw rest out')))"

text \<open>
  \<^verbatim>\<open>out.get("notes") or {}\<close>: \<^verbatim>\<open>dict.get\<close> on a raw mapping, and the Python truthiness
  of a raw value.
\<close>

fun dict_get :: "raw \<Rightarrow> string \<Rightarrow> raw option" where
  "dict_get (RDict kvs) k = map_of kvs k"
| "dict_get v k = None"

fun truthy_raw :: "raw \<Rightarrow> bool" where
  "truthy_raw RNull = False"
| "truthy_raw (RBool b) = b"
| "truthy_raw (RInt i) = (i \<noteq> 0)"
| "truthy_raw (RStr s) = (s \<noteq> [])"
| "truthy_raw (RList xs) = (xs \<noteq> [])"
| "truthy_raw (RDict kvs) = (kvs \<noteq> [])"

definition mutable_notes :: "field list \<Rightarrow> raw \<Rightarrow> exn + raw" where
  "mutable_notes flds self_raw =
     (case mutable_notes_loop self_raw (mutable_note_fields flds) (RDict []) of
        Inl e \<Rightarrow> Inl e
      | Inr out \<Rightarrow>
          (case dict_get out ''notes'' of
             None \<Rightarrow> Inr (RDict [])
           | Some notes \<Rightarrow> if truthy_raw notes then Inr notes else Inr (RDict [])))"

subsection \<open>Reading a trace\<close>

definition is_upload_file_call :: "event \<Rightarrow> bool" where
  "is_upload_file_call ev = (case ev of Call_do_upload_file _ _ _ \<Rightarrow> True | _ \<Rightarrow> False)"

definition is_delete_call :: "event \<Rightarrow> bool" where
  "is_delete_call ev = (case ev of Call_delete_upload_request _ _ \<Rightarrow> True | _ \<Rightarrow> False)"

text \<open>The descriptor handed to a derivation function, for the events that are such calls.\<close>

definition derivation_args :: "event \<Rightarrow> descriptor option list" where
  "derivation_args ev =
     (case ev of
        Call_unit_key_fn d \<Rightarrow> [d]
      | Call_unit_metadata_fn d \<Rightarrow> [d]
      | _ \<Rightarrow> [])"

subsection \<open>Example collaborators\<close>

text \<open>
  A client whose every call succeeds, one whose import fails, and a plugin manager
  with no registered implementation; two distributors that share the id
  \<^verbatim>\<open>yum_distributor\<close>.
\<close>

definition example_client :: client where
  "example_client =
     \<lparr>search_repo_units = (\<lambda>_ _. Inr []),
      publish_repository = (\<lambda>_ _. Inr [''task-publish'']),
      do_sync = (\<lambda>_ _. Inr [''task-sync'']),
      do_unassociate = (\<lambda>_ _. Inr [''task-unassociate'']),
      request_upload = (\<lambda>_. Inr [''upload_id'' \<mapsto> ''upload-1'']),
      do_upload_file = (\<lambda>_ _ _. Inr (Some (3, ''checksum''))),
      do_import = (\<lambda>_ _ _ _ _. Inr [''task-import'']),
      delete_upload_request = (\<lambda>_ _. Inr ())\<rparr>"

definition failing_import_client :: client where
  "failing_import_client =
     example_client\<lparr>do_import := (\<lambda>_ _ _ _ _. Inl (RemoteError ''import failed''))\<rparr>"

definition no_plugins :: plugin_manager where
  "no_plugins = \<lparr>pulp_repository_pre_publish = (\<lambda>_ _. [])\<rparr>"

definition yum_first :: Distributor where
  "yum_first =
     \<lparr>dist_id = ''yum_distributor'', dist_type_id = ''yum_distributor'',
      repo_id = None, is_rsync = False\<rparr>"

definition yum_second :: Distributor where
  "yum_second =
     \<lparr>dist_id = ''yum_distributor'', dist_type_id = ''yum_clone_distributor'',
      repo_id = None, is_rsync = False\<rparr>"

definition docker_web :: Distributor where
  "docker_web =
     \<lparr>dist_id = ''docker_web_distributor_name_cli'',
      dist_type_id = ''docker_distributor_web'', repo_id = None, is_rsync = False\<rparr>"

text \<open>
  A plugin manager whose implementations return nothing, then one replacement, then
  another; and a distributor that publishes by rsync.
\<close>

definition replacement_options :: PublishOptions where
  "replacement_options =
     \<lparr>force = Some True, clean = Some False, origin_only = Some False,
      rsync_extra_args = Some [''-v'']\<rparr>"

definition replacing_plugins :: plugin_manager where
  "replacing_plugins =
     \<lparr>pulp_repository_pre_publish =
        (\<lambda>_ _. [None, Some replacement_options, Some PublishOptions_defaults])\<rparr>"

definition cdn_rsync :: Distributor where
  "cdn_rsync =
     \<lparr>dist_id = ''cdn_distributor'', dist_type_id = ''rpm_rsync_distributor'',
      repo_id = None, is_rsync = True\<rparr>"

section \<open>Properties\<close>

subsection \<open>The repo_id validator\<close>

text \<open>
  C1. Construction should be rejected when any distributor of the list, at any
  position, has a non-empty \<^verbatim>\<open>repo_id\<close> other than the repository's id. The validator
  returns after the first distributor: a repository with id \<^verbatim>\<open>repo\<close> whose first
  distributor has no \<^verbatim>\<open>repo_id\<close> and whose second distributor belongs to \<^verbatim>\<open>other\<close>
  is constructed, although the second distributor alone is rejected.
\<close>

theorem Repository_init_checks_first_distributor_only:
  "Repository_init ((Repository_defaults ''repo'')
      \<lparr>distributors :=
         [\<lparr>dist_id = ''a'', dist_type_id = ''t'', repo_id = None, is_rsync = False\<rparr>,
          \<lparr>dist_id = ''b'', dist_type_id = ''t'', repo_id = Some ''other'', is_rsync = False\<rparr>]\<rparr>)
   = Inr ((Repository_defaults ''repo'')
      \<lparr>distributors :=
         [\<lparr>dist_id = ''a'', dist_type_id = ''t'', repo_id = None, is_rsync = False\<rparr>,
          \<lparr>dist_id = ''b'', dist_type_id = ''t'', repo_id = Some ''other'', is_rsync = False\<rparr>]\<rparr>)
   \<and> Repository_init ((Repository_defaults ''repo'')
      \<lparr>distributors :=
         [\<lparr>dist_id = ''b'', dist_type_id = ''t'', repo_id = Some ''other'', is_rsync = False\<rparr>]\<rparr>)
   = Inl (ValueError ''b'')"
  by (simp add: Repository_init_def Repository_defaults_def)

subsection \<open>The version sort\<close>






















subsection \<open>Detached repositories\<close>

text \<open>
  C4. On a repository without a client, \<^verbatim>\<open>search_content\<close>, \<^verbatim>\<open>publish\<close>, \<^verbatim>\<open>sync\<close> and
  \<^verbatim>\<open>remove_content\<close> each raise \<^verbatim>\<open>DetachedException\<close> (the spec's DetachedError) and
  leave the trace as it was: no call reaches the client, and no hook runs.
\<close>

theorem detached_raises_before_any_call:
  "search_content None self criteria tr = (Inl DetachedException, tr)
   \<and> publish None pm self options tr = (Inl DetachedException, tr)
   \<and> sync None self sync_options tr = (Inl DetachedException, tr)
   \<and> remove_content None self criteria type_ids tr = (Inl DetachedException, tr)"
  by (simp add: search_content_def publish_def sync_def remove_content_def)

subsection \<open>Removing content\<close>

text \<open>
  C7. On an attached repository, \<^verbatim>\<open>remove_content\<close> without criteria and without
  \<^verbatim>\<open>type_ids\<close> issues exactly one unassociate call, with no criteria (the
  unrestricted filter); with criteria given, the one unassociate call carries exactly
  these criteria, whatever \<^verbatim>\<open>type_ids\<close> is.
\<close>

theorem remove_content_passes_criteria:
  "remove_content (Some cl) self None None tr =
     (Inr (do_unassociate cl (repository_id self) None),
      tr @ [Call_do_unassociate (repository_id self) None])
   \<and> remove_content (Some cl) self (Some c) type_ids tr =
     (Inr (do_unassociate cl (repository_id self) (Some c)),
      tr @ [Call_do_unassociate (repository_id self) (Some c)])"
  by (simp add: remove_content_def)

subsection \<open>The sync payload\<close>

lemma asdict_feed: "asdict_not_none (SyncOptions_feed f) = [(''feed'', SStr f)]"
  by (simp add: asdict_not_none_def SyncOptions_feed_def)

lemma sync_default_options:
  "sync (Some cl) self None tr =
     (Inr (do_sync cl (repository_id self) [(''feed'', SStr [])]),
      tr @ [Call_do_sync (repository_id self) [(''feed'', SStr [])]])"
  by (simp add: sync_def asdict_feed)

lemma sync_given_options:
  "sync (Some cl) self (Some opts) tr =
     (Inr (do_sync cl (repository_id self) (asdict_not_none opts)),
      tr @ [Call_do_sync (repository_id self) (asdict_not_none opts)])"
  by (simp add: sync_def)

lemma map_of_map_filter_absent:
  "k \<notin> fst ` set kvs \<Longrightarrow>
   map_of (List.map_filter (\<lambda>(name, val). map_option (Pair name) val) kvs) k = None"
  by (induction kvs) (auto split: option.splits)

lemma map_of_map_filter_Pair:
  "distinct (map fst kvs) \<Longrightarrow>
   map_of (List.map_filter (\<lambda>(name, val). map_option (Pair name) val) kvs) k =
   (case map_of kvs k of None \<Rightarrow> None | Some v \<Rightarrow> v)"
proof (induction kvs)
  case Nil
  then show ?case by simp
next
  case (Cons a kvs)
  obtain k' val where a: "a = (k', val)" by (cases a)
  show ?case
  proof (cases "k' = k")
    case True
    with Cons.prems a have "k \<notin> fst ` set kvs" by auto
    then show ?thesis using True a
      by (cases val) (simp_all add: map_of_map_filter_absent)
  next
    case False
    then show ?thesis using Cons a
      by (cases val) simp_all
  qed
qed

lemma asdict_lookup:
  "map_of (asdict_not_none opts) k =
     (case map_of
       [(''feed'', map_option SStr (feed opts)),
        (''ssl_validation'', map_option SBool (ssl_validation opts)),
        (''ssl_ca_cert'', map_option SStr (ssl_ca_cert opts)),
        (''ssl_client_cert'', map_option SStr (ssl_client_cert opts)),
        (''ssl_client_key'', map_option SStr (ssl_client_key opts)),
        (''max_speed'', map_option SInt (max_speed opts)),
        (''proxy_host'', map_option SStr (proxy_host opts)),
        (''proxy_port'', map_option SInt (proxy_port opts)),
        (''proxy_username'', map_option SStr (proxy_username opts)),
        (''proxy_password'', map_option SStr (proxy_password opts)),
        (''basic_auth_username'', map_option SStr (basic_auth_username opts)),
        (''basic_auth_password'', map_option SStr (basic_auth_password opts))] k of
      None \<Rightarrow> None | Some v \<Rightarrow> v)"
  unfolding asdict_not_none_def by (rule map_of_map_filter_Pair) simp

lemma asdict_not_none_fields:
  "map_of (asdict_not_none opts) ''feed'' = map_option SStr (feed opts)
 \<and> map_of (asdict_not_none opts) ''ssl_validation'' = map_option SBool (ssl_validation opts)
 \<and> map_of (asdict_not_none opts) ''ssl_ca_cert'' = map_option SStr (ssl_ca_cert opts)
 \<and> map_of (asdict_not_none opts) ''ssl_client_cert'' = map_option SStr (ssl_client_cert opts)
 \<and> map_of (asdict_not_none opts) ''ssl_client_key'' = map_option SStr (ssl_client_key opts)
 \<and> map_of (asdict_not_none opts) ''max_speed'' = map_option SInt (max_speed opts)
 \<and> map_of (asdict_not_none opts) ''proxy_host'' = map_option SStr (proxy_host opts)
 \<and> map_of (asdict_not_none opts) ''proxy_port'' = map_option SInt (proxy_port opts)
 \<and> map_of (asdict_not_none opts) ''proxy_username'' = map_option SStr (proxy_username opts)
 \<and> map_of (asdict_not_none opts) ''proxy_password'' = map_option SStr (proxy_password opts)
 \<and> map_of (asdict_not_none opts) ''basic_auth_username'' = map_option SStr (basic_auth_username opts)
 \<and> map_of (asdict_not_none opts) ''basic_auth_password'' = map_option SStr (basic_auth_password opts)"
  by (simp add: asdict_lookup)

text \<open>
  C10. On an attached repository, \<^verbatim>\<open>sync\<close> without options sends the payload that
  holds the key \<^verbatim>\<open>feed\<close> with the empty string and nothing else; with options given,
  the payload holds each attribute under its name exactly when its value is not
  \<^verbatim>\<open>None\<close>.
\<close>

theorem sync_payload_omits_none:
  "sync (Some cl) self None tr =
     (Inr (do_sync cl (repository_id self) [(''feed'', SStr [])]),
      tr @ [Call_do_sync (repository_id self) [(''feed'', SStr [])]])
   \<and> sync (Some cl) self (Some opts) tr =
     (Inr (do_sync cl (repository_id self) (asdict_not_none opts)),
      tr @ [Call_do_sync (repository_id self) (asdict_not_none opts)])
   \<and> map_of (asdict_not_none opts) ''feed'' = map_option SStr (feed opts)
   \<and> map_of (asdict_not_none opts) ''ssl_validation'' = map_option SBool (ssl_validation opts)
   \<and> map_of (asdict_not_none opts) ''ssl_ca_cert'' = map_option SStr (ssl_ca_cert opts)
   \<and> map_of (asdict_not_none opts) ''ssl_client_cert'' = map_option SStr (ssl_client_cert opts)
   \<and> map_of (asdict_not_none opts) ''ssl_client_key'' = map_option SStr (ssl_client_key opts)
   \<and> map_of (asdict_not_none opts) ''max_speed'' = map_option SInt (max_speed opts)
   \<and> map_of (asdict_not_none opts) ''proxy_host'' = map_option SStr (proxy_host opts)
   \<and> map_of (asdict_not_none opts) ''proxy_port'' = map_option SInt (proxy_port opts)
   \<and> map_of (asdict_not_none opts) ''proxy_username'' = map_option SStr (proxy_username opts)
   \<and> map_of (asdict_not_none opts) ''proxy_password'' = map_option SStr (proxy_password opts)
   \<and> map_of (asdict_not_none opts) ''basic_auth_username''
       = map_option SStr (basic_auth_username opts)
   \<and> map_of (asdict_not_none opts) ''basic_auth_password''
       = map_option SStr (basic_auth_password opts)"
  using sync_default_options [of cl self tr] sync_given_options [of cl self opts tr]
    asdict_not_none_fields [of opts]
  by blast

subsection \<open>Publishing\<close>

lemma find_append_case:
  "List.find P (xs @ ys) = (case List.find P xs of None \<Rightarrow> List.find P ys | Some x \<Rightarrow> Some x)"
  by (induction xs) auto

lemma find_SomeD: "List.find P xs = Some x \<Longrightarrow> P x \<and> x \<in> set xs"
  by (induction xs) (auto split: if_splits)

lemma fold_upd_find:
  "fold (\<lambda>dist out. out(dist_id dist \<mapsto> dist)) ds m c =
     (case List.find (\<lambda>d. dist_id d = c) (rev ds) of None \<Rightarrow> m c | Some d \<Rightarrow> Some d)"
proof (induction ds arbitrary: m)
  case Nil
  then show ?case by simp
next
  case (Cons d ds)
  let ?f = "\<lambda>dist out. out(dist_id dist \<mapsto> dist)"
  have "fold ?f (d # ds) m c = fold ?f ds (m(dist_id d \<mapsto> d)) c"
    by (simp only: fold_simps o_apply)
  also have "\<dots> = (case List.find (\<lambda>d. dist_id d = c) (rev ds) of
                      None \<Rightarrow> (m(dist_id d \<mapsto> d)) c | Some x \<Rightarrow> Some x)"
    by (rule Cons.IH)
  also have "\<dots> = (case List.find (\<lambda>d. dist_id d = c) (rev (d # ds)) of
                      None \<Rightarrow> m c | Some x \<Rightarrow> Some x)"
    by (simp add: find_append_case split: option.splits)
  finally show ?case .
qed

lemma distributors_by_id_find:
  "distributors_by_id self c = List.find (\<lambda>d. dist_id d = c) (rev (distributors self))"
  by (simp add: distributors_by_id_def fold_upd_find split: option.splits)

lemma distributors_by_id_Some:
  "distributors_by_id self c = Some d \<Longrightarrow> dist_id d = c \<and> d \<in> set (distributors self)"
  using find_SomeD [of "\<lambda>d. dist_id d = c" "rev (distributors self)" d]
  by (simp add: distributors_by_id_find)

lemma distributors_by_id_None:
  "distributors_by_id self c = None \<longleftrightarrow> c \<notin> dist_id ` set (distributors self)"
  by (auto simp: distributors_by_id_find find_None_iff)

lemma publish_loop_acc:
  "publish_loop self options cands acc = acc @ publish_loop self options cands []"
proof (induction cands arbitrary: acc)
  case Nil
  then show ?case by simp
next
  case (Cons c cands)
  show ?case
    using Cons.IH [of acc] Cons.IH [of "acc @ [x]" for x] Cons.IH [of "[x]" for x]
    by (auto split: option.splits)
qed

text \<open>The decision of one candidate.\<close>

lemma publish_loop_Cons:
  "publish_loop self options (c # cands) [] =
     (case distributors_by_id self c of
        None \<Rightarrow> []
      | Some d \<Rightarrow>
          if c = ''docker_web_distributor_name_cli'' \<and> origin_only options = Some True then []
          else [(d, config_for_distributor d options)])
     @ publish_loop self options cands []"
proof (cases "distributors_by_id self c")
  case None
  then show ?thesis by simp
next
  case (Some d)
  then have "dist_id d = c" by (simp add: distributors_by_id_Some)
  moreover have "truthy_bool (origin_only options) = (origin_only options = Some True)"
    by (cases "origin_only options") auto
  ultimately show ?thesis using Some publish_loop_acc [of self options cands "[x]" for x]
    by simp
qed

lemma publish_loop_ids:
  "map (\<lambda>p. dist_id (fst p)) (publish_loop self options cands []) =
     filter (\<lambda>c. c \<in> dist_id ` set (distributors self)
                \<and> \<not> (c = ''docker_web_distributor_name_cli'' \<and> origin_only options = Some True))
       cands"
proof (induction cands)
  case Nil
  then show ?case by simp
next
  case (Cons c cands)
  show ?case
  proof (cases "distributors_by_id self c")
    case None
    then show ?thesis using Cons.IH distributors_by_id_None [of self c]
      by (simp add: publish_loop_Cons del: publish_loop.simps(2))
  next
    case (Some d)
    then have "dist_id d = c" "c \<in> dist_id ` set (distributors self)"
      using distributors_by_id_Some [OF Some] by auto
    then show ?thesis using Some Cons.IH
      by (simp add: publish_loop_Cons del: publish_loop.simps(2))
  qed
qed

lemma publish_loop_last_with_id:
  "map fst (publish_loop self options cands []) =
     List.map_filter (\<lambda>c. List.find (\<lambda>d. dist_id d = c) (rev (distributors self)))
       (filter (\<lambda>c. \<not> (c = ''docker_web_distributor_name_cli'' \<and> origin_only options = Some True))
          cands)"
proof (induction cands)
  case Nil
  then show ?case by simp
next
  case (Cons c cands)
  show ?case using Cons.IH
    by (cases "distributors_by_id self c")
       (auto simp: publish_loop_Cons distributors_by_id_find
             simp del: publish_loop.simps(2))
qed

lemma publish_loop_configs:
  "list_all (\<lambda>(d, c). c = config_for_distributor d options) (publish_loop self options cands [])"
proof (induction cands)
  case Nil
  then show ?case by simp
next
  case (Cons c cands)
  then show ?case
    by (cases "distributors_by_id self c")
       (auto simp: publish_loop_Cons simp del: publish_loop.simps(2))
qed

lemma adopted_first_non_None:
  "(case List.map_filter (\<lambda>ret. ret) rets of [] \<Rightarrow> options | ret # _ \<Rightarrow> ret) =
   (case List.find (\<lambda>ret. ret \<noteq> None) rets of
      Some (Some replacement) \<Rightarrow> replacement
    | _ \<Rightarrow> options)"
  by (induction rets) (auto split: option.splits)

lemma publish_attached:
  "publish (Some cl) pm self options tr =
     (let adopted = (case List.find (\<lambda>ret. ret \<noteq> None) (pulp_repository_pre_publish pm self options) of
                       Some (Some replacement) \<Rightarrow> replacement
                     | _ \<Rightarrow> options);
          to_publish = publish_loop self adopted PUBLISH_DISTRIBUTORS []
      in (Inr (publish_repository cl self to_publish),
          tr @ [Hook_pre_publish self options, Call_publish_repository self to_publish]
             @ (case publish_repository cl self to_publish of
                  Inl _ \<Rightarrow> []
                | Inr _ \<Rightarrow> [Hook_published self adopted])))"
  unfolding publish_def Let_def adopted_first_non_None
  by (simp add: f_map_def split: sum.splits)

text \<open>What a configuration holds, key by key.\<close>

lemma config_for_distributor_contents:
  "config_for_distributor d opts =
     List.map_filter (\<lambda>(k, v). map_option (Pair k) v)
       ((if is_rsync d
         then [(''delete'', map_option CBool (clean opts)),
               (''content_units_only'', map_option CBool (origin_only opts)),
               (''rsync_extra_args'', map_option CArgs (rsync_extra_args opts))]
         else [])
        @ [(''force_full'', map_option CBool (force opts))])"
  by (simp add: config_for_distributor_def split: option.splits)

lemma config_for_distributor_keys:
  "map_of (config_for_distributor d opts) ''force_full'' = map_option CBool (force opts)"
  "map_of (config_for_distributor d opts) ''delete'' =
     (if is_rsync d then map_option CBool (clean opts) else None)"
  "map_of (config_for_distributor d opts) ''content_units_only'' =
     (if is_rsync d then map_option CBool (origin_only opts) else None)"
  "map_of (config_for_distributor d opts) ''rsync_extra_args'' =
     (if is_rsync d then map_option CArgs (rsync_extra_args opts) else None)"
  by (simp_all add: config_for_distributor_def split: option.splits)

lemma publish_loop_config_contents:
  "list_all (\<lambda>(d, c).
       c = List.map_filter (\<lambda>(k, v). map_option (Pair k) v)
             ((if is_rsync d
               then [(''delete'', map_option CBool (clean options)),
                     (''content_units_only'', map_option CBool (origin_only options)),
                     (''rsync_extra_args'', map_option CArgs (rsync_extra_args options))]
               else [])
              @ [(''force_full'', map_option CBool (force options))])
       \<and> map_of c ''force_full'' = map_option CBool (force options)
       \<and> map_of c ''delete'' = (if is_rsync d then map_option CBool (clean options) else None)
       \<and> map_of c ''content_units_only'' =
           (if is_rsync d then map_option CBool (origin_only options) else None)
       \<and> map_of c ''rsync_extra_args'' =
           (if is_rsync d then map_option CArgs (rsync_extra_args options) else None))
     (publish_loop self options cands [])"
proof -
  have "list_all (\<lambda>(d, c). c = config_for_distributor d options)
          (publish_loop self options cands [])"
    by (rule publish_loop_configs)
  then show ?thesis
    by (rule list.pred_mono_strong)
       (auto simp: config_for_distributor_keys config_for_distributor_contents [symmetric])
qed

lemma publish_replacing_example:
  "publish (Some example_client) replacing_plugins
     ((Repository_defaults ''repo'')\<lparr>distributors := [cdn_rsync, yum_first]\<rparr>)
     PublishOptions_defaults []
   = (Inr (Inr [''task-publish'']),
      [Hook_pre_publish ((Repository_defaults ''repo'')\<lparr>distributors := [cdn_rsync, yum_first]\<rparr>)
         PublishOptions_defaults,
       Call_publish_repository
         ((Repository_defaults ''repo'')\<lparr>distributors := [cdn_rsync, yum_first]\<rparr>)
         [(yum_first, [(''force_full'', CBool True)]),
          (cdn_rsync, [(''delete'', CBool False), (''content_units_only'', CBool False),
                       (''rsync_extra_args'', CArgs [''-v'']), (''force_full'', CBool True)])],
       Hook_published ((Repository_defaults ''repo'')\<lparr>distributors := [cdn_rsync, yum_first]\<rparr>)
         replacement_options])"
  by (simp add: publish_def f_map_def Let_def Repository_defaults_def yum_first_def cdn_rsync_def
      example_client_def replacing_plugins_def replacement_options_def PublishOptions_defaults_def
      PUBLISH_DISTRIBUTORS_def distributors_by_id_def config_for_distributor_def)

text \<open>
  C9. On an attached repository, \<^verbatim>\<open>publish\<close> adopts the first value other than
  \<^verbatim>\<open>None\<close> in the list that the pre-publish hook returns, and keeps the options it
  was given when there is none (the list is empty or holds \<^verbatim>\<open>None\<close> only). The
  adopted options configure every distributor that is published: its configuration
  holds \<^verbatim>\<open>force_full\<close> with the adopted \<^verbatim>\<open>force\<close> when that is set, for an rsync
  distributor also \<^verbatim>\<open>delete\<close>, \<^verbatim>\<open>content_units_only\<close> and \<^verbatim>\<open>rsync_extra_args\<close> with the
  adopted \<^verbatim>\<open>clean\<close>, \<^verbatim>\<open>origin_only\<close> and \<^verbatim>\<open>rsync_extra_args\<close> when those are set, and
  nothing else. The adopted options are what the published hook receives, which runs
  when the publish request succeeds. In the example the hook returns \<^verbatim>\<open>None\<close>, a
  replacement and a second replacement: the first replacement is adopted.
\<close>

theorem publish_adopts_first_hook_value:
  "(let adopted = (case List.find (\<lambda>ret. ret \<noteq> None)
                            (pulp_repository_pre_publish pm self options) of
                     Some (Some replacement) \<Rightarrow> replacement
                   | _ \<Rightarrow> options);
        to_publish = publish_loop self adopted PUBLISH_DISTRIBUTORS []
    in publish (Some cl) pm self options tr =
         (Inr (publish_repository cl self to_publish),
          tr @ [Hook_pre_publish self options, Call_publish_repository self to_publish]
             @ (case publish_repository cl self to_publish of
                  Inl _ \<Rightarrow> []
                | Inr _ \<Rightarrow> [Hook_published self adopted]))
       \<and> list_all (\<lambda>(d, c).
             c = config_for_distributor d adopted
             \<and> c = List.map_filter (\<lambda>(k, v). map_option (Pair k) v)
                   ((if is_rsync d
                     then [(''delete'', map_option CBool (clean adopted)),
                           (''content_units_only'', map_option CBool (origin_only adopted)),
                           (''rsync_extra_args'', map_option CArgs (rsync_extra_args adopted))]
                     else [])
                    @ [(''force_full'', map_option CBool (force adopted))])
             \<and> map_of c ''force_full'' = map_option CBool (force adopted)
             \<and> map_of c ''delete'' =
                 (if is_rsync d then map_option CBool (clean adopted) else None)
             \<and> map_of c ''content_units_only'' =
                 (if is_rsync d then map_option CBool (origin_only adopted) else None)
             \<and> map_of c ''rsync_extra_args'' =
                 (if is_rsync d then map_option CArgs (rsync_extra_args adopted) else None))
           to_publish)
   \<and> publish (Some example_client) replacing_plugins
        ((Repository_defaults ''repo'')\<lparr>distributors := [cdn_rsync, yum_first]\<rparr>)
        PublishOptions_defaults []
      = (Inr (Inr [''task-publish'']),
         [Hook_pre_publish
            ((Repository_defaults ''repo'')\<lparr>distributors := [cdn_rsync, yum_first]\<rparr>)
            PublishOptions_defaults,
          Call_publish_repository
            ((Repository_defaults ''repo'')\<lparr>distributors := [cdn_rsync, yum_first]\<rparr>)
            [(yum_first, [(''force_full'', CBool True)]),
             (cdn_rsync, [(''delete'', CBool False), (''content_units_only'', CBool False),
                          (''rsync_extra_args'', CArgs [''-v'']), (''force_full'', CBool True)])],
          Hook_published
            ((Repository_defaults ''repo'')\<lparr>distributors := [cdn_rsync, yum_first]\<rparr>)
            replacement_options])"
proof -
  define adopted where
    "adopted = (case List.find (\<lambda>ret. ret \<noteq> None)
                       (pulp_repository_pre_publish pm self options) of
                  Some (Some replacement) \<Rightarrow> replacement
                | _ \<Rightarrow> options)"
  have run: "publish (Some cl) pm self options tr =
      (Inr (publish_repository cl self (publish_loop self adopted PUBLISH_DISTRIBUTORS [])),
       tr @ [Hook_pre_publish self options,
             Call_publish_repository self (publish_loop self adopted PUBLISH_DISTRIBUTORS [])]
          @ (case publish_repository cl self
                    (publish_loop self adopted PUBLISH_DISTRIBUTORS []) of
               Inl _ \<Rightarrow> []
             | Inr _ \<Rightarrow> [Hook_published self adopted]))"
    unfolding publish_attached Let_def adopted_def by simp
  have same: "list_all (\<lambda>(d, c). c = config_for_distributor d adopted)
      (publish_loop self adopted PUBLISH_DISTRIBUTORS [])"
    by (rule publish_loop_configs)
  have contents: "list_all (\<lambda>(d, c).
       c = List.map_filter (\<lambda>(k, v). map_option (Pair k) v)
             ((if is_rsync d
               then [(''delete'', map_option CBool (clean adopted)),
                     (''content_units_only'', map_option CBool (origin_only adopted)),
                     (''rsync_extra_args'', map_option CArgs (rsync_extra_args adopted))]
               else [])
              @ [(''force_full'', map_option CBool (force adopted))])
       \<and> map_of c ''force_full'' = map_option CBool (force adopted)
       \<and> map_of c ''delete'' = (if is_rsync d then map_option CBool (clean adopted) else None)
       \<and> map_of c ''content_units_only'' =
           (if is_rsync d then map_option CBool (origin_only adopted) else None)
       \<and> map_of c ''rsync_extra_args'' =
           (if is_rsync d then map_option CArgs (rsync_extra_args adopted) else None))
     (publish_loop self adopted PUBLISH_DISTRIBUTORS [])"
    by (rule publish_loop_config_contents)
  have both: "list_all (\<lambda>(d, c).
       c = config_for_distributor d adopted
       \<and> c = List.map_filter (\<lambda>(k, v). map_option (Pair k) v)
             ((if is_rsync d
               then [(''delete'', map_option CBool (clean adopted)),
                     (''content_units_only'', map_option CBool (origin_only adopted)),
                     (''rsync_extra_args'', map_option CArgs (rsync_extra_args adopted))]
               else [])
              @ [(''force_full'', map_option CBool (force adopted))])
       \<and> map_of c ''force_full'' = map_option CBool (force adopted)
       \<and> map_of c ''delete'' = (if is_rsync d then map_option CBool (clean adopted) else None)
       \<and> map_of c ''content_units_only'' =
           (if is_rsync d then map_option CBool (origin_only adopted) else None)
       \<and> map_of c ''rsync_extra_args'' =
           (if is_rsync d then map_option CArgs (rsync_extra_args adopted) else None))
     (publish_loop self adopted PUBLISH_DISTRIBUTORS [])"
    using same contents unfolding list_all_iff by fast
  show ?thesis
    unfolding Let_def adopted_def [symmetric]
    using run both publish_replacing_example by blast
qed

subsection \<open>Upload, then import\<close>

lemma upload_then_import_attached:
  "upload_then_import (Some cl) self file_obj name type_id unit_key_fn unit_metadata_fn tr =
     (let kf = (case unit_key_fn of Some f \<Rightarrow> f | None \<Rightarrow> (\<lambda>_. Inr []));
          mf = (case unit_metadata_fn of Some f \<Rightarrow> f | None \<Rightarrow> (\<lambda>_. Inr None));
          rid = repository_id self
      in case request_upload cl name of
           Inl e \<Rightarrow> (Inr (Inl e), tr @ [Call_request_upload name])
         | Inr upload \<Rightarrow>
             (case upload ''upload_id'' of
                None \<Rightarrow> (Inr (Inl (KeyError ''upload_id'')), tr @ [Call_request_upload name])
              | Some uid \<Rightarrow>
                  (let started =
                         tr @ [Call_request_upload name, Log_info_uploading name rid uid]
                            @ (case file_obj of
                                 None \<Rightarrow> []
                               | Some file \<Rightarrow> [Call_do_upload_file uid file name])
                   in case (case file_obj of
                              None \<Rightarrow> Inr None
                            | Some file \<Rightarrow> do_upload_file cl uid file name) of
                        Inl e \<Rightarrow> (Inr (Inl e), started)
                      | Inr descr \<Rightarrow>
                          (case kf descr of
                             Inl e \<Rightarrow> (Inr (Inl e), started @ [Call_unit_key_fn descr])
                           | Inr unit_key \<Rightarrow>
                               (case mf descr of
                                  Inl e \<Rightarrow>
                                    (Inr (Inl e),
                                     started @ [Call_unit_key_fn descr, Call_unit_metadata_fn descr])
                                | Inr unit_metadata \<Rightarrow>
                                    (Inr (do_import cl rid uid type_id unit_key unit_metadata),
                                     started
                                     @ [Call_unit_key_fn descr, Call_unit_metadata_fn descr,
                                        Call_do_import rid uid type_id unit_key unit_metadata]
                                     @ (case do_import cl rid uid type_id unit_key unit_metadata of
                                          Inl _ \<Rightarrow> []
                                        | Inr _ \<Rightarrow> [Call_delete_upload_request uid name])))))))"
  unfolding upload_then_import_def Let_def f_map_def f_flat_map_def
  by (simp split: sum.splits option.splits prod.splits)

lemma upload_without_file_result:
  "upload_then_import (Some cl) self None name type_id unit_key_fn unit_metadata_fn tr =
     (let kf = (case unit_key_fn of Some f \<Rightarrow> f | None \<Rightarrow> (\<lambda>_. Inr []));
          mf = (case unit_metadata_fn of Some f \<Rightarrow> f | None \<Rightarrow> (\<lambda>_. Inr None));
          rid = repository_id self
      in case request_upload cl name of
           Inl e \<Rightarrow> (Inr (Inl e), tr @ [Call_request_upload name])
         | Inr upload \<Rightarrow>
             (case upload ''upload_id'' of
                None \<Rightarrow> (Inr (Inl (KeyError ''upload_id'')), tr @ [Call_request_upload name])
              | Some uid \<Rightarrow>
                  (case kf None of
                     Inl e \<Rightarrow>
                       (Inr (Inl e),
                        tr @ [Call_request_upload name, Log_info_uploading name rid uid,
                              Call_unit_key_fn None])
                   | Inr unit_key \<Rightarrow>
                       (case mf None of
                          Inl e \<Rightarrow>
                            (Inr (Inl e),
                             tr @ [Call_request_upload name, Log_info_uploading name rid uid,
                                   Call_unit_key_fn None, Call_unit_metadata_fn None])
                        | Inr unit_metadata \<Rightarrow>
                            (Inr (do_import cl rid uid type_id unit_key unit_metadata),
                             tr @ [Call_request_upload name, Log_info_uploading name rid uid,
                                   Call_unit_key_fn None, Call_unit_metadata_fn None,
                                   Call_do_import rid uid type_id unit_key unit_metadata]
                                @ (case do_import cl rid uid type_id unit_key unit_metadata of
                                     Inl _ \<Rightarrow> []
                                   | Inr _ \<Rightarrow> [Call_delete_upload_request uid name]))))))"
  by (simp add: upload_then_import_attached Let_def split: sum.splits option.splits)

lemma upload_without_file_no_upload_call:
  "filter is_upload_file_call
     (snd (upload_then_import (Some cl) self None name type_id unit_key_fn unit_metadata_fn tr))
   = filter is_upload_file_call tr"
  by (simp add: upload_without_file_result Let_def is_upload_file_call_def
      split: sum.splits option.splits)

lemma upload_without_file_descriptors:
  "list_all (\<lambda>d. d = None)
     (concat (map derivation_args
        (drop (length tr)
           (snd (upload_then_import (Some cl) self None name type_id
                   unit_key_fn unit_metadata_fn tr)))))"
  by (simp add: upload_without_file_result Let_def derivation_args_def
      split: sum.splits option.splits)

text \<open>
  C8. With \<^verbatim>\<open>file_obj=None\<close> on an attached repository, the chain is: the upload
  request; then, once the upload id is known, the log line, the unit key function
  called with \<^verbatim>\<open>None\<close>, the unit metadata function called with \<^verbatim>\<open>None\<close>, and the
  import built from their results. No call uploads bytes, and every call of a
  derivation function has \<^verbatim>\<open>None\<close> as its argument.
\<close>

theorem upload_without_file:
  "upload_then_import (Some cl) self None name type_id unit_key_fn unit_metadata_fn tr =
     (let kf = (case unit_key_fn of Some f \<Rightarrow> f | None \<Rightarrow> (\<lambda>_. Inr []));
          mf = (case unit_metadata_fn of Some f \<Rightarrow> f | None \<Rightarrow> (\<lambda>_. Inr None));
          rid = repository_id self
      in case request_upload cl name of
           Inl e \<Rightarrow> (Inr (Inl e), tr @ [Call_request_upload name])
         | Inr upload \<Rightarrow>
             (case upload ''upload_id'' of
                None \<Rightarrow> (Inr (Inl (KeyError ''upload_id'')), tr @ [Call_request_upload name])
              | Some uid \<Rightarrow>
                  (case kf None of
                     Inl e \<Rightarrow>
                       (Inr (Inl e),
                        tr @ [Call_request_upload name, Log_info_uploading name rid uid,
                              Call_unit_key_fn None])
                   | Inr unit_key \<Rightarrow>
                       (case mf None of
                          Inl e \<Rightarrow>
                            (Inr (Inl e),
                             tr @ [Call_request_upload name, Log_info_uploading name rid uid,
                                   Call_unit_key_fn None, Call_unit_metadata_fn None])
                        | Inr unit_metadata \<Rightarrow>
                            (Inr (do_import cl rid uid type_id unit_key unit_metadata),
                             tr @ [Call_request_upload name, Log_info_uploading name rid uid,
                                   Call_unit_key_fn None, Call_unit_metadata_fn None,
                                   Call_do_import rid uid type_id unit_key unit_metadata]
                                @ (case do_import cl rid uid type_id unit_key unit_metadata of
                                     Inl _ \<Rightarrow> []
                                   | Inr _ \<Rightarrow> [Call_delete_upload_request uid name]))))))
   \<and> filter is_upload_file_call
        (snd (upload_then_import (Some cl) self None name type_id
                unit_key_fn unit_metadata_fn tr))
      = filter is_upload_file_call tr
   \<and> list_all (\<lambda>d. d = None)
        (concat (map derivation_args
           (drop (length tr)
              (snd (upload_then_import (Some cl) self None name type_id
                      unit_key_fn unit_metadata_fn tr)))))"
  using upload_without_file_result [of cl self name type_id unit_key_fn unit_metadata_fn tr]
    upload_without_file_no_upload_call [of cl self name type_id unit_key_fn unit_metadata_fn tr]
    upload_without_file_descriptors [of tr cl self name type_id unit_key_fn unit_metadata_fn]
  by blast

subsection \<open>The mutable notes\<close>

lemma mutable_note_fields_Repository:
  "mutable_note_fields Repository_fields =
     [\<lparr>fld_name = ''product_versions'',
       pulp_field = Some ''notes.product_versions'', mutable = True\<rparr>,
      \<lparr>fld_name = ''include_in_download_service'',
       pulp_field = Some ''notes.include_in_download_service'', mutable = True\<rparr>,
      \<lparr>fld_name = ''include_in_download_service_preview'',
       pulp_field = Some ''notes.include_in_download_service_preview'', mutable = True\<rparr>]"
  by (simp add: mutable_note_fields_def Repository_fields_def)

lemma split_notes_paths:
  "split_on CHR ''.'' ''notes'' = [''notes'']"
  "split_on CHR ''.'' ''notes.product_versions'' = [''notes'', ''product_versions'']"
  "split_on CHR ''.'' ''notes.include_in_download_service'' =
     [''notes'', ''include_in_download_service'']"
  "split_on CHR ''.'' ''notes.include_in_download_service_preview'' =
     [''notes'', ''include_in_download_service_preview'']"
  by simp_all

lemma mutable_notes_Repository:
  "mutable_notes Repository_fields self_raw =
     Inr (RDict (List.map_filter (\<lambda>k. map_option (Pair k) (lookup self_raw (''notes.'' @ k)))
        [''product_versions'', ''include_in_download_service'',
         ''include_in_download_service_preview'']))"
proof -
  obtain a b c where abc:
    "lookup self_raw ''notes.product_versions'' = a"
    "lookup self_raw ''notes.include_in_download_service'' = b"
    "lookup self_raw ''notes.include_in_download_service_preview'' = c"
    by blast
  show ?thesis
    unfolding mutable_notes_def mutable_note_fields_Repository
    using abc
    by (cases a; cases b; cases c)
       (simp_all add: dict_put_def split_notes_paths)
qed

text \<open>
  C5. For every raw form of a repository, the mutable notes of \<^verbatim>\<open>Repository\<close> are
  exactly the entries of \<^verbatim>\<open>product_versions\<close>, \<^verbatim>\<open>include_in_download_service\<close> and
  \<^verbatim>\<open>include_in_download_service_preview\<close>, in this order, each present exactly when
  the raw form has a value under its \<^verbatim>\<open>notes.\<close> path, and with that value. So
  every key is the name of a declared mutable note field, and no other field appears.
\<close>

theorem mutable_notes_only_mutable_note_fields:
  "mutable_notes Repository_fields self_raw =
     Inr (RDict (List.map_filter (\<lambda>k. map_option (Pair k) (lookup self_raw (''notes.'' @ k)))
        [''product_versions'', ''include_in_download_service'',
         ''include_in_download_service_preview'']))
   \<and> set (map fst (List.map_filter
          (\<lambda>k. map_option (Pair k) (lookup self_raw (''notes.'' @ k)))
          [''product_versions'', ''include_in_download_service'',
           ''include_in_download_service_preview'']))
      \<subseteq> {''product_versions'', ''include_in_download_service'',
          ''include_in_download_service_preview''}
   \<and> map (\<lambda>fld. pulp_field fld) (mutable_note_fields Repository_fields) =
       [Some ''notes.product_versions'', Some ''notes.include_in_download_service'',
        Some ''notes.include_in_download_service_preview'']"
proof -
  have keys: "set (map fst (List.map_filter (\<lambda>k. map_option (Pair k) (f k)) ks)) \<subseteq> set ks"
    for f :: "string \<Rightarrow> raw option" and ks
    by (induction ks) (auto split: option.splits)
  show ?thesis
    using mutable_notes_Repository [of self_raw]
      keys [of "\<lambda>k. lookup self_raw (''notes.'' @ k)"
              "[''product_versions'', ''include_in_download_service'',
                ''include_in_download_service_preview'']"]
    by (simp add: mutable_note_fields_Repository)
qed

subsection \<open>The distributors that publish selects\<close>

lemma set_map_filter: "set (List.map_filter f xs) = {y. \<exists>x\<in>set xs. f x = Some y}"
  by (induction xs) (auto split: option.splits)

lemma find_distinct_key:
  "distinct (map k xs) \<Longrightarrow> List.find (\<lambda>x. k x = c) xs = Some y \<longleftrightarrow> y \<in> set xs \<and> k y = c"
  by (induction xs) (auto simp: rev_image_eqI)

lemma publish_loop_distinct_ids:
  assumes "distinct (map dist_id (distributors self))"
  shows "set (map fst (publish_loop self options cands [])) =
           {d \<in> set (distributors self).
              dist_id d \<in> set cands
              \<and> \<not> (dist_id d = ''docker_web_distributor_name_cli''
                     \<and> origin_only options = Some True)}"
proof -
  have "distinct (map dist_id (rev (distributors self)))"
    using assms by (simp add: rev_map [symmetric])
  then have find_iff:
    "List.find (\<lambda>d. dist_id d = c) (rev (distributors self)) = Some y
       \<longleftrightarrow> y \<in> set (distributors self) \<and> dist_id y = c" for c y
    using find_distinct_key [of dist_id "rev (distributors self)" c y] by simp
  show ?thesis
    unfolding publish_loop_last_with_id set_map_filter find_iff by auto
qed

text \<open>
  C2, as the code has it. On an attached repository, \<^verbatim>\<open>publish\<close> hands the client one
  list of distributors. Their ids are the ids of the allow-list \<^verbatim>\<open>iso_distributor\<close>,
  \<^verbatim>\<open>yum_distributor\<close>, \<^verbatim>\<open>cdn_distributor\<close>, \<^verbatim>\<open>cdn_distributor_unprotected\<close>,
  \<^verbatim>\<open>docker_web_distributor_name_cli\<close> that some distributor of the repository carries,
  in the order of the allow-list, without \<^verbatim>\<open>docker_web_distributor_name_cli\<close> exactly
  when \<^verbatim>\<open>origin_only\<close> is true in the options in effect after the pre-publish hook.
  For each such id the distributor is the last one of the repository's list with
  that id. When the ids of the repository's distributors are distinct, the selected
  distributors are exactly the repository's distributors with an allow-listed id
  (less the docker distributor under \<^verbatim>\<open>origin_only\<close>).
\<close>

theorem publish_selects_last_distributor_per_allowed_id:
  "(let adopted = (case List.find (\<lambda>ret. ret \<noteq> None)
                            (pulp_repository_pre_publish pm self options) of
                     Some (Some replacement) \<Rightarrow> replacement
                   | _ \<Rightarrow> options);
        to_publish = publish_loop self adopted PUBLISH_DISTRIBUTORS []
    in snd (publish (Some cl) pm self options tr) =
         tr @ [Hook_pre_publish self options, Call_publish_repository self to_publish]
            @ (case publish_repository cl self to_publish of
                 Inl _ \<Rightarrow> []
               | Inr _ \<Rightarrow> [Hook_published self adopted])
       \<and> map (\<lambda>p. dist_id (fst p)) to_publish =
           filter (\<lambda>c. c \<in> dist_id ` set (distributors self)
                      \<and> \<not> (c = ''docker_web_distributor_name_cli''
                             \<and> origin_only adopted = Some True))
             [''iso_distributor'', ''yum_distributor'', ''cdn_distributor'',
              ''cdn_distributor_unprotected'', ''docker_web_distributor_name_cli'']
       \<and> map fst to_publish =
           List.map_filter (\<lambda>c. List.find (\<lambda>d. dist_id d = c) (rev (distributors self)))
             (filter (\<lambda>c. \<not> (c = ''docker_web_distributor_name_cli''
                              \<and> origin_only adopted = Some True))
                [''iso_distributor'', ''yum_distributor'', ''cdn_distributor'',
                 ''cdn_distributor_unprotected'', ''docker_web_distributor_name_cli''])
       \<and> (distinct (map dist_id (distributors self)) \<longrightarrow>
            set (map fst to_publish) =
              {d \<in> set (distributors self).
                 dist_id d \<in> set [''iso_distributor'', ''yum_distributor'', ''cdn_distributor'',
                                  ''cdn_distributor_unprotected'',
                                  ''docker_web_distributor_name_cli'']
                 \<and> \<not> (dist_id d = ''docker_web_distributor_name_cli''
                        \<and> origin_only adopted = Some True)}))"
proof -
  define adopted where
    "adopted = (case List.find (\<lambda>ret. ret \<noteq> None)
                       (pulp_repository_pre_publish pm self options) of
                  Some (Some replacement) \<Rightarrow> replacement
                | _ \<Rightarrow> options)"
  define allowed where
    "allowed = [''iso_distributor'', ''yum_distributor'', ''cdn_distributor'',
                ''cdn_distributor_unprotected'', ''docker_web_distributor_name_cli'']"
  have allowed: "PUBLISH_DISTRIBUTORS = allowed"
    by (simp add: PUBLISH_DISTRIBUTORS_def allowed_def)
  have trace: "snd (publish (Some cl) pm self options tr) =
      tr @ [Hook_pre_publish self options,
            Call_publish_repository self (publish_loop self adopted allowed [])]
         @ (case publish_repository cl self (publish_loop self adopted allowed []) of
              Inl _ \<Rightarrow> []
            | Inr _ \<Rightarrow> [Hook_published self adopted])"
    unfolding publish_attached Let_def adopted_def allowed by simp
  have ids: "map (\<lambda>p. dist_id (fst p)) (publish_loop self adopted allowed []) =
      filter (\<lambda>c. c \<in> dist_id ` set (distributors self)
                 \<and> \<not> (c = ''docker_web_distributor_name_cli''
                        \<and> origin_only adopted = Some True)) allowed"
    by (rule publish_loop_ids)
  have lasts: "map fst (publish_loop self adopted allowed []) =
      List.map_filter (\<lambda>c. List.find (\<lambda>d. dist_id d = c) (rev (distributors self)))
        (filter (\<lambda>c. \<not> (c = ''docker_web_distributor_name_cli''
                         \<and> origin_only adopted = Some True)) allowed)"
    by (rule publish_loop_last_with_id)
  have exact: "distinct (map dist_id (distributors self)) \<longrightarrow>
      set (map fst (publish_loop self adopted allowed [])) =
        {d \<in> set (distributors self).
           dist_id d \<in> set allowed
           \<and> \<not> (dist_id d = ''docker_web_distributor_name_cli''
                  \<and> origin_only adopted = Some True)}"
    using publish_loop_distinct_ids [of self adopted allowed] by blast
  show ?thesis
    unfolding Let_def allowed adopted_def [symmetric] allowed_def [symmetric]
    using trace ids lasts exact by blast
qed

text \<open>
  The test of the spec: the yum and the docker distributor, listed docker first, are
  published yum first; with \<^verbatim>\<open>origin_only=True\<close> the docker distributor is left out.
\<close>

theorem publish_selects_last_distributor_per_allowed_id_witness:
  "distinct (map dist_id [docker_web, yum_first])
   \<and> snd (publish (Some example_client) no_plugins
        ((Repository_defaults ''repo'')\<lparr>distributors := [docker_web, yum_first]\<rparr>)
        PublishOptions_defaults [])
     = [Hook_pre_publish ((Repository_defaults ''repo'')\<lparr>distributors := [docker_web, yum_first]\<rparr>)
          PublishOptions_defaults,
        Call_publish_repository
          ((Repository_defaults ''repo'')\<lparr>distributors := [docker_web, yum_first]\<rparr>)
          [(yum_first, []), (docker_web, [])],
        Hook_published ((Repository_defaults ''repo'')\<lparr>distributors := [docker_web, yum_first]\<rparr>)
          PublishOptions_defaults]
   \<and> set (map fst (publish_loop
        ((Repository_defaults ''repo'')\<lparr>distributors := [docker_web, yum_first]\<rparr>)
        (PublishOptions_defaults\<lparr>origin_only := Some True\<rparr>) PUBLISH_DISTRIBUTORS []))
     = {yum_first}"
proof -
  have d: "distinct (map dist_id [docker_web, yum_first])"
    by (simp add: docker_web_def yum_first_def)
  have p: "publish_loop
        ((Repository_defaults ''repo'')\<lparr>distributors := [docker_web, yum_first]\<rparr>)
        PublishOptions_defaults PUBLISH_DISTRIBUTORS [] = [(yum_first, []), (docker_web, [])]"
    by (simp add: Repository_defaults_def yum_first_def docker_web_def
        PublishOptions_defaults_def PUBLISH_DISTRIBUTORS_def distributors_by_id_def
        config_for_distributor_def)
  have q: "publish_loop
        ((Repository_defaults ''repo'')\<lparr>distributors := [docker_web, yum_first]\<rparr>)
        (PublishOptions_defaults\<lparr>origin_only := Some True\<rparr>) PUBLISH_DISTRIBUTORS []
        = [(yum_first, [])]"
    by (simp add: Repository_defaults_def yum_first_def docker_web_def
        PublishOptions_defaults_def PUBLISH_DISTRIBUTORS_def distributors_by_id_def
        config_for_distributor_def)
  show ?thesis
    using d p q
      publish_selects_last_distributor_per_allowed_id
        [where pm = no_plugins and options = PublishOptions_defaults
           and cl = example_client and tr = "[]"
           and self = "(Repository_defaults ''repo'')\<lparr>distributors := [docker_web, yum_first]\<rparr>"]
    by (simp add: Let_def no_plugins_def example_client_def)
qed

text \<open>
  Against C2 as stated: a repository may hold two distributors with the id
  \<^verbatim>\<open>yum_distributor\<close>. Its construction is accepted, both distributors have an
  allow-listed id, and \<^verbatim>\<open>publish\<close> selects the second one only.
\<close>

theorem publish_drops_earlier_distributor_of_same_id:
  "Repository_init ((Repository_defaults ''repo'')\<lparr>distributors := [yum_first, yum_second]\<rparr>)
     = Inr ((Repository_defaults ''repo'')\<lparr>distributors := [yum_first, yum_second]\<rparr>)
   \<and> snd (publish (Some example_client) no_plugins
        ((Repository_defaults ''repo'')\<lparr>distributors := [yum_first, yum_second]\<rparr>)
        PublishOptions_defaults [])
     = [Hook_pre_publish ((Repository_defaults ''repo'')\<lparr>distributors := [yum_first, yum_second]\<rparr>)
          PublishOptions_defaults,
        Call_publish_repository
          ((Repository_defaults ''repo'')\<lparr>distributors := [yum_first, yum_second]\<rparr>)
          [(yum_second, [])],
        Hook_published ((Repository_defaults ''repo'')\<lparr>distributors := [yum_first, yum_second]\<rparr>)
          PublishOptions_defaults]
   \<and> yum_first \<in> set (distributors
        ((Repository_defaults ''repo'')\<lparr>distributors := [yum_first, yum_second]\<rparr>))
   \<and> dist_id yum_first \<in> set PUBLISH_DISTRIBUTORS
   \<and> yum_first \<noteq> yum_second"
  by (simp add: publish_def f_map_def Let_def Repository_init_def Repository_defaults_def
      yum_first_def yum_second_def example_client_def no_plugins_def PublishOptions_defaults_def
      PUBLISH_DISTRIBUTORS_def distributors_by_id_def config_for_distributor_def)

subsection \<open>Deleting the upload request\<close>

text \<open>
  C3, as the code has it. In an upload-then-import chain on an attached repository,
  the future returned to the caller does not depend on what the deletion of the
  upload request answers. When the import succeeds, the deletion of the upload
  request is the last call of the chain, right after the import, and the only
  deletion. When the import future fails, no deletion is issued.
\<close>

theorem delete_follows_successful_import:
  assumes "upload_then_import (Some cl) self file_obj name type_id kf mf tr = (res, tr')"
  shows "fst (upload_then_import (Some (cl\<lparr>delete_upload_request := del\<rparr>)) self file_obj name
               type_id kf mf tr) = res
       \<and> ((\<exists>tasks. res = Inr (Inr tasks)) \<longrightarrow>
            (\<exists>uid evs unit_key unit_metadata.
               tr' = tr @ evs
                     @ [Call_do_import (repository_id self) uid type_id unit_key unit_metadata,
                        Call_delete_upload_request uid name]
               \<and> filter is_delete_call evs = []))
       \<and> ((\<exists>e. res = Inr (Inl e)) \<longrightarrow>
            filter is_delete_call tr' = filter is_delete_call tr)"
  using assms
  unfolding upload_then_import_attached Let_def
  by (auto simp: is_delete_call_def split: sum.splits option.splits)

theorem delete_follows_successful_import_witness:
  "upload_then_import (Some example_client) (Repository_defaults ''repo'')
      (Some ''bytes'') ''unit'' ''iso'' None None []
   = (Inr (Inr [''task-import'']),
      [Call_request_upload ''unit'',
       Log_info_uploading ''unit'' ''repo'' ''upload-1'',
       Call_do_upload_file ''upload-1'' ''bytes'' ''unit'',
       Call_unit_key_fn (Some (3, ''checksum'')),
       Call_unit_metadata_fn (Some (3, ''checksum'')),
       Call_do_import ''repo'' ''upload-1'' ''iso'' [] None,
       Call_delete_upload_request ''upload-1'' ''unit''])
   \<and> fst (upload_then_import
        (Some (example_client\<lparr>delete_upload_request := (\<lambda>_ _. Inl (RemoteError ''gone''))\<rparr>))
        (Repository_defaults ''repo'') (Some ''bytes'') ''unit'' ''iso'' None None [])
     = Inr (Inr [''task-import''])"
proof -
  have h: "upload_then_import (Some example_client) (Repository_defaults ''repo'')
      (Some ''bytes'') ''unit'' ''iso'' None None []
   = (Inr (Inr [''task-import'']),
      [Call_request_upload ''unit'',
       Log_info_uploading ''unit'' ''repo'' ''upload-1'',
       Call_do_upload_file ''upload-1'' ''bytes'' ''unit'',
       Call_unit_key_fn (Some (3, ''checksum'')),
       Call_unit_metadata_fn (Some (3, ''checksum'')),
       Call_do_import ''repo'' ''upload-1'' ''iso'' [] None,
       Call_delete_upload_request ''upload-1'' ''unit''])"
    by (simp add: upload_then_import_def f_map_def f_flat_map_def example_client_def
        Repository_defaults_def)
  show ?thesis
    using h delete_follows_successful_import
        [OF h, of "\<lambda>_ _. Inl (RemoteError ''gone'')"]
    by simp
qed

text \<open>
  Against C3 as stated: when the import fails, the chain ends with the import and no
  deletion of the upload request is issued.
\<close>

theorem no_delete_after_failed_import:
  "upload_then_import (Some failing_import_client) (Repository_defaults ''repo'')
      (Some ''bytes'') ''unit'' ''iso'' None None []
   = (Inr (Inl (RemoteError ''import failed'')),
      [Call_request_upload ''unit'',
       Log_info_uploading ''unit'' ''repo'' ''upload-1'',
       Call_do_upload_file ''upload-1'' ''bytes'' ''unit'',
       Call_unit_key_fn (Some (3, ''checksum'')),
       Call_unit_metadata_fn (Some (3, ''checksum'')),
       Call_do_import ''repo'' ''upload-1'' ''iso'' [] None])"
  by (simp add: upload_then_import_def f_map_def f_flat_map_def failing_import_client_def
      example_client_def Repository_defaults_def)


end
